theory Spec2Isabelle
  imports Complex_Main "HOL-Library.Multiset"
begin

section \<open>Python values\<close>

text \<open>
  The bot of \<^verbatim>\<open>main.py\<close> handles three kinds of data: what \<^verbatim>\<open>json.load\<close> and
  \<^verbatim>\<open>resp.json()\<close> decode, the dictionary \<^verbatim>\<open>parse_token_data\<close> builds, and the two sets
  of \<^verbatim>\<open>TokenMonitor\<close>. All of them are Python values decoded from JSON.

  A number is the exact rational value of the Python number (for a float, the value of
  the double; NaN and Infinity are not represented). JSON \<^verbatim>\<open>true\<close> and \<^verbatim>\<open>false\<close> are the numbers 1 and 0:
  Python's \<^verbatim>\<open>bool\<close> is a subclass of \<^verbatim>\<open>int\<close> with \<^verbatim>\<open>True == 1\<close> and equal hashes, and
  every operation applied to a decoded value below (truth test, \<^verbatim>\<open>len\<close>, subscript, \<^verbatim>\<open>in\<close>,
  \<^verbatim>\<open>format\<close>) treats them alike. With that, equality of \<open>pyval\<close> is Python's \<^verbatim>\<open>==\<close>.
  A dictionary is an association list read with \<open>map_of\<close>.
\<close>

datatype pyval =
    PNone
  | PNum rat
  | PStr string
  | PList "pyval list"
  | PDict "(string \<times> pyval) list"

type_synonym pydict = "(string \<times> pyval) list"

text \<open>The exception classes the modelled calls raise; each derives from \<^verbatim>\<open>Exception\<close>.\<close>

datatype exn =
    KeyError
  | IndexError
  | TypeError
  | AttributeError
  | ValueError
  | OverflowError
  | FileNotFoundError
  | UnicodeDecodeError
  | JSONDecodeError
  | RecursionError
  | ClientError
  | TimeoutError
  | DiscordException

text \<open>Sequencing of calls that may raise: the first exception ends the block.\<close>

definition and_then :: "exn + 'a \<Rightarrow> ('a \<Rightarrow> exn + 'b) \<Rightarrow> exn + 'b" where
  "and_then r f = (case r of Inl e \<Rightarrow> Inl e | Inr x \<Rightarrow> f x)"

text \<open>\<^verbatim>\<open>bool(v)\<close>, the truth test of \<^verbatim>\<open>not v\<close> and \<^verbatim>\<open>if v\<close>.\<close>

fun truthy :: "pyval \<Rightarrow> bool" where
  "truthy PNone = False"
| "truthy (PNum n) = (n \<noteq> 0)"
| "truthy (PStr s) = (s \<noteq> [])"
| "truthy (PList xs) = (xs \<noteq> [])"
| "truthy (PDict kvs) = (kvs \<noteq> [])"

text \<open>\<^verbatim>\<open>len(v)\<close>: a number or \<^verbatim>\<open>None\<close> has no length.\<close>

fun py_len :: "pyval \<Rightarrow> exn + nat" where
  "py_len (PStr s) = Inr (length s)"
| "py_len (PList xs) = Inr (length xs)"
| "py_len (PDict kvs) = Inr (length kvs)"
| "py_len v = Inl TypeError"

text \<open>\<^verbatim>\<open>v[k]\<close> for a string key \<^verbatim>\<open>k\<close>: only a dictionary can be read that way.\<close>

fun getitem :: "pyval \<Rightarrow> string \<Rightarrow> exn + pyval" where
  "getitem (PDict kvs) k = (case map_of kvs k of None \<Rightarrow> Inl KeyError | Some v \<Rightarrow> Inr v)"
| "getitem v k = Inl TypeError"

text \<open>
  \<^verbatim>\<open>v[0]\<close>: the head of a list, the first character of a string; a dictionary decoded
  from JSON has string keys only, so the key \<^verbatim>\<open>0\<close> is missing.
\<close>

fun getitem0 :: "pyval \<Rightarrow> exn + pyval" where
  "getitem0 (PList []) = Inl IndexError"
| "getitem0 (PList (x # xs)) = Inr x"
| "getitem0 (PStr []) = Inl IndexError"
| "getitem0 (PStr (c # cs)) = Inr (PStr [c])"
| "getitem0 (PDict kvs) = Inl KeyError"
| "getitem0 v = Inl TypeError"

text \<open>\<^verbatim>\<open>v.get(k)\<close>: a method of dictionaries only; a missing key gives \<^verbatim>\<open>None\<close>.\<close>

fun dict_get :: "pyval \<Rightarrow> string \<Rightarrow> exn + pyval" where
  "dict_get (PDict kvs) k = (case map_of kvs k of None \<Rightarrow> Inr PNone | Some v \<Rightarrow> Inr v)"
| "dict_get v k = Inl AttributeError"

text \<open>\<^verbatim>\<open>hash(v)\<close> succeeds: lists and dictionaries are unhashable.\<close>

fun hashable :: "pyval \<Rightarrow> bool" where
  "hashable (PList xs) = False"
| "hashable (PDict kvs) = False"
| "hashable v = True"

text \<open>What \<^verbatim>\<open>for x in v\<close> yields: list elements, dictionary keys, the characters of a string.\<close>

fun py_iter :: "pyval \<Rightarrow> exn + pyval list" where
  "py_iter (PList xs) = Inr xs"
| "py_iter (PDict kvs) = Inr (map (\<lambda>kv. PStr (fst kv)) kvs)"
| "py_iter (PStr s) = Inr (map (\<lambda>c. PStr [c]) s)"
| "py_iter v = Inl TypeError"

text \<open>\<^verbatim>\<open>set(v)\<close>: iterates \<^verbatim>\<open>v\<close> and hashes each element.\<close>

definition py_set :: "pyval \<Rightarrow> exn + pyval set" where
  "py_set v =
     and_then (py_iter v)
       (\<lambda>xs. if list_all hashable xs then Inr (set xs) else Inl TypeError)"

text \<open>\<^verbatim>\<open>v in s\<close> for a set \<^verbatim>\<open>s\<close>: hashes \<^verbatim>\<open>v\<close> first.\<close>

definition py_in :: "pyval \<Rightarrow> pyval set \<Rightarrow> exn + bool" where
  "py_in v s = (if hashable v then Inr (v \<in> s) else Inl TypeError)"

text \<open>\<^verbatim>\<open>v.endswith(suffix)\<close> and \<^verbatim>\<open>v.startswith(prefix)\<close>: methods of strings only.\<close>

definition endswith :: "string \<Rightarrow> string \<Rightarrow> bool" where
  "endswith s suf = (take (length suf) (rev s) = rev suf)"

fun py_endswith :: "pyval \<Rightarrow> string \<Rightarrow> exn + bool" where
  "py_endswith (PStr s) suf = Inr (endswith s suf)"
| "py_endswith v suf = Inl AttributeError"

definition startswith :: "string \<Rightarrow> string \<Rightarrow> bool" where
  "startswith s pre = (take (length pre) s = pre)"

fun py_startswith :: "pyval \<Rightarrow> string \<Rightarrow> exn + bool" where
  "py_startswith (PStr s) pre = Inr (startswith s pre)"
| "py_startswith v pre = Inl AttributeError"

section \<open>Configuration\<close>

text \<open>
  \<^verbatim>\<open>Config.PARAMS\<close>. The value of \<^verbatim>\<open>"filter"\<close> is the JSON text \<^verbatim>\<open>json.dumps\<close> makes of
  a dictionary; the model keeps the dictionary. The float literal \<^verbatim>\<open>1e+308\<close> is the
  double nearest to \<open>10 ^ 308\<close>, an integer a little above it, which \<^verbatim>\<open>json.dumps\<close>
  prints back as \<^verbatim>\<open>1e+308\<close>.
\<close>

datatype qval = QStr string | QJson pyval

definition FLOAT_1E308 :: rat where
  "FLOAT_1E308 = 100000000000000001097906362944045541740492309677311846336810682903157585404911491537163328978494688899061249669721172515611590283743140088328307009198146046031271664502933027185697489699588559043338384466165001178426897626212945177628091195786707458122783970171784415105291802893207873272974885715430223118336"

definition FILTER :: pydict where
  "FILTER =
     [(''liquidity'', PList [PNum 50000, PNum 1000000]),
      (''mkt_cap'', PList [PNum 200000, PNum 1000000]),
      (''holders'', PList [PNum 400, PNum FLOAT_1E308]),
      (''volume'', PList [PNum 80000, PNum FLOAT_1E308])]"

definition PARAMS :: "(string \<times> qval) list" where
  "PARAMS =
     [(''chain'', QStr ''solana''),
      (''duration'', QStr ''1m''),
      (''sort_field'', QStr ''creation_timestamp''),
      (''sort_order'', QStr ''desc''),
      (''filter'', QJson (PDict FILTER)),
      (''is_hide_honeypot'', QStr ''true'')]"

definition API_URL :: string where
  "API_URL = ''[redacted]''"

definition CHECK_INTERVAL :: nat where
  "CHECK_INTERVAL = 15"

definition REQUIRED_SUFFIX :: string where
  "REQUIRED_SUFFIX = ''pump''"

definition BANNED_SUFFIX :: string where
  "BANNED_SUFFIX = ''moon''"

definition SEEN_FILE :: string where
  "SEEN_FILE = ''seen_addresses.json''"

definition USERS_FILE :: string where
  "USERS_FILE = ''subscribed_users.json''"

section \<open>The durable set store\<close>

text \<open>
  A file is what \<^verbatim>\<open>json.load\<close> makes of it: bytes that are no text in the encoding
  of the open file (\<^verbatim>\<open>f.read()\<close> raises \<^verbatim>\<open>UnicodeDecodeError\<close>), text that is no JSON
  (\<^verbatim>\<open>JSONDecodeError\<close>), JSON nested deeper than the decoder's recursion goes
  (\<^verbatim>\<open>RecursionError\<close>), or the document it decodes to. The file system maps names to
  files; writes succeed.
\<close>

datatype content = NotText | NotJson | TooDeep | Doc pyval

type_synonym files = "string \<rightharpoonup> content"

definition open_read :: "files \<Rightarrow> string \<Rightarrow> exn + content" where
  "open_read fs filename =
     (case fs filename of None \<Rightarrow> Inl FileNotFoundError | Some c \<Rightarrow> Inr c)"

fun json_load :: "content \<Rightarrow> exn + pyval" where
  "json_load NotText = Inl UnicodeDecodeError"
| "json_load NotJson = Inl JSONDecodeError"
| "json_load TooDeep = Inl RecursionError"
| "json_load (Doc v) = Inr v"

text \<open>
  \<^verbatim>\<open>load_persistence\<close>: \<^verbatim>\<open>set(json.load(f))\<close> under
  \<^verbatim>\<open>except (FileNotFoundError, json.JSONDecodeError)\<close>; any other exception leaves
  the function.
\<close>

definition load_persistence :: "files \<Rightarrow> string \<Rightarrow> exn + pyval set" where
  "load_persistence fs filename =
     (case and_then (and_then (open_read fs filename) json_load) py_set of
        Inl e \<Rightarrow>
          if e = FileNotFoundError \<or> e = JSONDecodeError then Inr {} else Inl e
      | Inr s \<Rightarrow> Inr s)"

text \<open>
  \<^verbatim>\<open>save_persistence\<close>: \<^verbatim>\<open>json.dump(list(data), f)\<close> on the file opened with \<^verbatim>\<open>"w"\<close>.
  The order in which \<^verbatim>\<open>list\<close> enumerates a set is the interpreter's, and depends on
  how the set object was built: two sets with the same elements may be enumerated in
  different orders. The parameter \<open>ord\<close> is the enumeration made at this one call;
  another call is given an \<open>ord\<close> of its own.
\<close>

definition save_persistence ::
  "(pyval set \<Rightarrow> pyval list) \<Rightarrow> pyval set \<Rightarrow> string \<Rightarrow> files \<Rightarrow> files" where
  "save_persistence ord data filename fs = fs(filename \<mapsto> Doc (PList (ord data)))"

text \<open>
  An enumeration to run the store with: the elements of the set in the order of a
  given list.
\<close>

definition order_of :: "pyval list \<Rightarrow> pyval set \<Rightarrow> pyval list" where
  "order_of xs s = filter (\<lambda>x. x \<in> s) xs"

section \<open>The world of one tick\<close>

text \<open>
  What the program reads from outside during one iteration of the loop: the reply
  to the HTTP request (for the request made), the outcome of the two Discord calls,
  the time-zone arithmetic of \<^verbatim>\<open>datetime\<close> and \<^verbatim>\<open>pytz\<close>, and the order in which the
  interpreter enumerates a set during this iteration. Every iteration and every
  command of a run has a world of its own.
\<close>

datatype http_result =
    Http_raises exn
  | Response nat "exn + pyval"

datatype channel = TextChannel | OtherChannel

record env =
  http_get :: "string \<Rightarrow> (string \<times> qval) list \<Rightarrow> http_result"
  local_hms :: "pyval \<Rightarrow> exn + string"
  fetch_channel :: "exn + channel"
  channel_send :: "exn option"
  set_order :: "pyval set \<Rightarrow> pyval list"

text \<open>
  \<open>Response status body\<close> is a reply with its status code and what \<^verbatim>\<open>resp.json()\<close>
  gives for its body. \<open>local_hms env ts\<close> is
  \<^verbatim>\<open>datetime.fromtimestamp(ts, tz=pytz.utc).astimezone(MOROCCO_TZ).strftime("%H:%M:%S")\<close>,
  which raises on a value that is no timestamp.
\<close>

section \<open>The token data fetcher\<close>

text \<open>
  \<^verbatim>\<open>parse_token_data\<close>: the subscripts in the order Python evaluates them, under
  \<^verbatim>\<open>except KeyError\<close>, which returns \<^verbatim>\<open>None\<close>; another exception leaves the function.
\<close>

definition token_fields :: "env \<Rightarrow> pyval \<Rightarrow> exn + pydict" where
  "token_fields env token =
     and_then (getitem token ''creation_timestamp'') (\<lambda>ts.
     and_then (local_hms env ts) (\<lambda>created_at.
     and_then (getitem token ''address'') (\<lambda>address.
     and_then (getitem token ''symbol'') (\<lambda>symbol.
     and_then (and_then (getitem token ''market_info'') (\<lambda>mi. getitem mi ''fdv'')) (\<lambda>fdv.
     and_then (and_then (getitem token ''market_info'') (\<lambda>mi. getitem mi ''price'')) (\<lambda>price.
     and_then (and_then (getitem token ''market_info'') (\<lambda>mi. getitem mi ''holders'')) (\<lambda>holders.
     and_then (and_then (getitem token ''pair_summary_info'') (\<lambda>ps. getitem ps ''liquidity''))
       (\<lambda>liquidity.
     and_then (and_then (getitem token ''market_info'') (\<lambda>mi. getitem mi ''volume'')) (\<lambda>volume.
     and_then (getitem token ''logo'') (\<lambda>logo.
       Inr [(''address'', address),
            (''symbol'', symbol),
            (''fdv'', fdv),
            (''price'', price),
            (''holders'', holders),
            (''liquidity'', liquidity),
            (''volume'', volume),
            (''created_ago'', PStr created_at),
            (''logo'', logo)]))))))))))"

definition parse_token_data :: "env \<Rightarrow> pyval \<Rightarrow> exn + pydict option" where
  "parse_token_data env token =
     (case token_fields env token of
        Inl e \<Rightarrow> if e = KeyError then Inr None else Inl e
      | Inr td \<Rightarrow> Inr (Some td))"

text \<open>
  \<^verbatim>\<open>fetch_token_data\<close>: the body of its \<^verbatim>\<open>try\<close>, then the two handlers
  \<^verbatim>\<open>except (aiohttp.ClientError, asyncio.TimeoutError)\<close> and \<^verbatim>\<open>except Exception\<close>, which
  both log and fall through to \<^verbatim>\<open>return None\<close>.
\<close>

definition fetch_try :: "env \<Rightarrow> exn + pydict option" where
  "fetch_try env =
     (case http_get env API_URL PARAMS of
        Http_raises e \<Rightarrow> Inl e
      | Response status body \<Rightarrow>
          if status \<noteq> 200 then Inr None
          else
            and_then body (\<lambda>data.
            and_then (dict_get data ''data'') (\<lambda>d.
              if \<not> truthy d then Inr None
              else
                and_then (and_then (getitem data ''data'') py_len) (\<lambda>n.
                  if n = 0 then Inr None
                  else
                    and_then (and_then (getitem data ''data'') getitem0)
                      (parse_token_data env)))))"

definition fetch_token_data :: "env \<Rightarrow> pydict option" where
  "fetch_token_data env =
     (case fetch_try env of
        Inl e \<Rightarrow> if e = ClientError \<or> e = TimeoutError then None else None
      | Inr r \<Rightarrow> r)"

section \<open>The notifier\<close>

text \<open>
  \<^verbatim>\<open>format(v, spec)\<close> with the format specifications of \<^verbatim>\<open>send_alert\<close>; the text
  produced is not modelled. A string raises \<^verbatim>\<open>ValueError\<close>, a list, a dictionary or
  \<^verbatim>\<open>None\<close> raises \<^verbatim>\<open>TypeError\<close>. The specifications \<^verbatim>\<open>,.2f\<close>, \<^verbatim>\<open>.4f\<close> and \<^verbatim>\<open>,.0f\<close> convert
  an \<^verbatim>\<open>int\<close> to a float first, which raises \<^verbatim>\<open>OverflowError\<close> when it rounds beyond the
  largest double, that is from \<open>2 ^ 1024 - 2 ^ 970\<close> on in magnitude (no double is that
  large, so such a number is an \<^verbatim>\<open>int\<close>). The specification \<^verbatim>\<open>,\<close> formats every number.
\<close>

definition FLOAT_OVERFLOW :: rat where
  "FLOAT_OVERFLOW = 2 ^ 1024 - 2 ^ 970"

fun format_float :: "pyval \<Rightarrow> exn + unit" where
  "format_float (PNum n) = (if FLOAT_OVERFLOW \<le> \<bar>n\<bar> then Inl OverflowError else Inr ())"
| "format_float (PStr s) = Inl ValueError"
| "format_float v = Inl TypeError"

fun format_grouped :: "pyval \<Rightarrow> exn + unit" where
  "format_grouped (PNum n) = Inr ()"
| "format_grouped (PStr s) = Inl ValueError"
| "format_grouped v = Inl TypeError"

text \<open>\<^verbatim>\<open>token_data.get('logo', '')\<close> on the dictionary \<^verbatim>\<open>token_data\<close>.\<close>

definition get_logo :: "pydict \<Rightarrow> pyval" where
  "get_logo td = (case map_of td ''logo'' of None \<Rightarrow> PStr [] | Some v \<Rightarrow> v)"

text \<open>
  The body of the \<^verbatim>\<open>try\<close> of \<^verbatim>\<open>send_alert\<close>: the channel is fetched; for a text channel
  the logo is tested, the eight fields are built in order, and the embed is sent.
\<close>

definition send_try :: "env \<Rightarrow> pydict \<Rightarrow> exn + bool" where
  "send_try env td =
     and_then (fetch_channel env) (\<lambda>ch.
       case ch of
         OtherChannel \<Rightarrow> Inr False
       | TextChannel \<Rightarrow>
           and_then (py_startswith (get_logo td) ''http://'') (\<lambda>is_http.
           and_then (if is_http then Inr True else py_startswith (get_logo td) ''https://'')
             (\<lambda>has_thumbnail.
           and_then (getitem (PDict td) ''symbol'') (\<lambda>symbol.
           and_then (getitem (PDict td) ''address'') (\<lambda>address.
           and_then (and_then (getitem (PDict td) ''fdv'') format_float) (\<lambda>fdv.
           and_then (and_then (getitem (PDict td) ''price'') format_float) (\<lambda>price.
           and_then (and_then (getitem (PDict td) ''volume'') format_float) (\<lambda>volume.
           and_then (and_then (getitem (PDict td) ''holders'') format_grouped) (\<lambda>holders.
           and_then (and_then (getitem (PDict td) ''liquidity'') format_float) (\<lambda>liquidity.
           and_then (getitem (PDict td) ''created_ago'') (\<lambda>created_ago.
             case channel_send env of
               Some e \<Rightarrow> Inl e
             | None \<Rightarrow> Inr True)))))))))))"

text \<open>\<^verbatim>\<open>send_alert\<close>: \<^verbatim>\<open>except discord.DiscordException\<close> returns \<^verbatim>\<open>False\<close>.\<close>

definition send_alert :: "env \<Rightarrow> pydict \<Rightarrow> exn + bool" where
  "send_alert env td =
     (case send_try env td of
        Inl e \<Rightarrow> if e = DiscordException then Inr False else Inl e
      | Inr b \<Rightarrow> Inr b)"

section \<open>The monitor and its loop\<close>

text \<open>
  The state of the process: the two sets of \<^verbatim>\<open>TokenMonitor\<close> and the files.
  \<^verbatim>\<open>__init__\<close> loads both sets; an exception of \<^verbatim>\<open>load_persistence\<close> ends the start.
\<close>

record monitor =
  seen_addresses :: "pyval set"
  subscribed_users :: "pyval set"
  files :: files

definition init :: "files \<Rightarrow> exn + monitor" where
  "init fs =
     and_then (load_persistence fs SEEN_FILE) (\<lambda>seen.
     and_then (load_persistence fs USERS_FILE) (\<lambda>users.
       Inr \<lparr>seen_addresses = seen, subscribed_users = users, files = fs\<rparr>))"

text \<open>
  What one iteration does to the outside, in order: the lines the loop itself logs,
  the calls of \<^verbatim>\<open>send_alert\<close> with their argument, and the calls of \<^verbatim>\<open>asyncio.sleep\<close>
  with the seconds. (The lines logged inside the fetcher and the notifier carry
  exception texts and are left out.)
\<close>

datatype event =
    Log_already_processed pyval
  | Log_non_pump pyval
  | Log_moon pyval
  | Log_alert_sent pyval
  | Log_loop_error exn
  | Alert pydict
  | Sleep nat

text \<open>
  \<^verbatim>\<open>self.seen_addresses.add(address)\<close> followed by
  \<^verbatim>\<open>self.save_persistence(self.seen_addresses, "seen_addresses.json")\<close>.
\<close>

definition mark_seen :: "env \<Rightarrow> pyval \<Rightarrow> monitor \<Rightarrow> monitor" where
  "mark_seen env address m =
     m\<lparr>seen_addresses := insert address (seen_addresses m),
       files := save_persistence (set_order env) (insert address (seen_addresses m))
                  SEEN_FILE (files m)\<rparr>"

text \<open>
  How the body of the \<^verbatim>\<open>try\<close> in \<^verbatim>\<open>monitoring_loop\<close> ends: it reaches the sleep at
  its end, it leaves through a \<^verbatim>\<open>continue\<close>, or it raises.
\<close>

datatype ending = Reached_sleep | Continue | Raised exn

text \<open>
  The part of the body after the test \<^verbatim>\<open>address in self.seen_addresses\<close> has failed:
  the two suffix tests and the alert.
\<close>

definition filter_and_alert ::
  "env \<Rightarrow> pydict \<Rightarrow> pyval \<Rightarrow> monitor \<Rightarrow> monitor \<times> event list \<times> ending" where
  "filter_and_alert env td address m =
     (case py_endswith address REQUIRED_SUFFIX of
        Inl e \<Rightarrow> (m, [], Raised e)
      | Inr False \<Rightarrow> (mark_seen env address m, [Log_non_pump address], Continue)
      | Inr True \<Rightarrow>
          (case py_endswith address BANNED_SUFFIX of
             Inl e \<Rightarrow> (m, [], Raised e)
           | Inr True \<Rightarrow> (mark_seen env address m, [Log_moon address], Continue)
           | Inr False \<Rightarrow>
               (case send_alert env td of
                  Inl e \<Rightarrow> (m, [Alert td], Raised e)
                | Inr True \<Rightarrow>
                    (case getitem (PDict td) ''symbol'' of
                       Inl e \<Rightarrow> (mark_seen env address m, [Alert td], Raised e)
                     | Inr symbol \<Rightarrow>
                         (mark_seen env address m, [Alert td, Log_alert_sent symbol],
                          Reached_sleep))
                | Inr False \<Rightarrow> (m, [Alert td], Reached_sleep))))"

text \<open>
  The body of the \<^verbatim>\<open>try\<close>, up to and without the sleep at its end. The walrus test
  \<^verbatim>\<open>if token_data := await self.fetch_token_data()\<close> is the truth test of a dictionary
  or \<^verbatim>\<open>None\<close>.
\<close>

definition loop_try :: "env \<Rightarrow> monitor \<Rightarrow> monitor \<times> event list \<times> ending" where
  "loop_try env m =
     (case fetch_token_data env of
        None \<Rightarrow> (m, [], Reached_sleep)
      | Some td \<Rightarrow>
          if \<not> truthy (PDict td) then (m, [], Reached_sleep)
          else
            (case getitem (PDict td) ''address'' of
               Inl e \<Rightarrow> (m, [], Raised e)
             | Inr address \<Rightarrow>
                 (case py_in address (seen_addresses m) of
                    Inl e \<Rightarrow> (m, [], Raised e)
                  | Inr True \<Rightarrow> (m, [Log_already_processed address], Continue)
                  | Inr False \<Rightarrow> filter_and_alert env td address m)))"

text \<open>
  One iteration of \<^verbatim>\<open>while True\<close>: the body, then
  \<^verbatim>\<open>await asyncio.sleep(Config.CHECK_INTERVAL)\<close> when the body reaches it, nothing after a
  \<^verbatim>\<open>continue\<close>, and the handler \<^verbatim>\<open>except Exception\<close> (a log line and
  \<^verbatim>\<open>await asyncio.sleep(30)\<close>) when it raised.
\<close>

definition tick :: "env \<Rightarrow> monitor \<Rightarrow> monitor \<times> event list" where
  "tick env m =
     (case loop_try env m of
        (m', evs, Reached_sleep) \<Rightarrow> (m', evs @ [Sleep CHECK_INTERVAL])
      | (m', evs, Continue) \<Rightarrow> (m', evs)
      | (m', evs, Raised e) \<Rightarrow> (m', evs @ [Log_loop_error e, Sleep 30]))"

text \<open>
  The commands \<^verbatim>\<open>subscribe\<close> and \<^verbatim>\<open>unsubscribe\<close>, which run between iterations on the
  same event loop, with the caller's numeric id.
\<close>

definition subscribe :: "env \<Rightarrow> int \<Rightarrow> monitor \<Rightarrow> monitor" where
  "subscribe env uid m =
     m\<lparr>subscribed_users := insert (PNum (of_int uid)) (subscribed_users m),
       files := save_persistence (set_order env)
                  (insert (PNum (of_int uid)) (subscribed_users m)) USERS_FILE (files m)\<rparr>"

definition unsubscribe :: "env \<Rightarrow> int \<Rightarrow> monitor \<Rightarrow> monitor" where
  "unsubscribe env uid m =
     m\<lparr>subscribed_users := subscribed_users m - {PNum (of_int uid)},
       files := save_persistence (set_order env)
                  (subscribed_users m - {PNum (of_int uid)}) USERS_FILE (files m)\<rparr>"

text \<open>
  A run of the process after its start: iterations of the loop interleaved with
  commands, each with the world it meets. The events of the iterations are collected
  in order.
\<close>

datatype step = Tick env | Subscribe env int | Unsubscribe env int

fun run :: "step list \<Rightarrow> monitor \<Rightarrow> monitor \<times> event list" where
  "run [] m = (m, [])"
| "run (Tick env # steps) m =
     (case tick env m of (m', evs) \<Rightarrow>
        (case run steps m' of (m'', evs') \<Rightarrow> (m'', evs @ evs')))"
| "run (Subscribe env uid # steps) m = run steps (subscribe env uid m)"
| "run (Unsubscribe env uid # steps) m = run steps (unsubscribe env uid m)"

text \<open>The addresses an event list hands to the notifier.\<close>

fun alerted :: "event list \<Rightarrow> pyval list" where
  "alerted [] = []"
| "alerted (Alert td # evs) =
     (case map_of td ''address'' of None \<Rightarrow> alerted evs | Some a \<Rightarrow> a # alerted evs)"
| "alerted (ev # evs) = alerted evs"

text \<open>The seconds an event list sleeps, in order.\<close>

fun sleeps :: "event list \<Rightarrow> nat list" where
  "sleeps [] = []"
| "sleeps (Sleep n # evs) = n # sleeps evs"
| "sleeps (ev # evs) = sleeps evs"

section \<open>Derived notions the properties speak of\<close>

text \<open>
  The composition \<^verbatim>\<open>save(load(F), F)\<close>: the set loaded from a file is saved to the same
  file; an exception of the load ends it before anything is written.
\<close>

definition save_loaded ::
  "(pyval set \<Rightarrow> pyval list) \<Rightarrow> files \<Rightarrow> string \<Rightarrow> exn + files" where
  "save_loaded ord fs filename =
     and_then (load_persistence fs filename)
       (\<lambda>data. Inr (save_persistence ord data filename fs))"

section \<open>Sample data\<close>

text \<open>
  A record of the API with every field, for a given address; the same record without
  its logo; a reply that lists one record; and a world built from a reply and the
  outcomes of the two Discord calls.
\<close>

definition sample_token :: "string \<Rightarrow> pyval" where
  "sample_token a =
     PDict [(''address'', PStr a),
            (''symbol'', PStr ''TKN''),
            (''creation_timestamp'', PNum 1700000000),
            (''market_info'',
               PDict [(''fdv'', PNum 250000), (''price'', PNum (1 / 8)),
                      (''holders'', PNum 500), (''volume'', PNum 90000)]),
            (''pair_summary_info'', PDict [(''liquidity'', PNum 60000)]),
            (''logo'', PStr ''https://example.org/logo.png'')]"

definition sample_token_no_logo :: "string \<Rightarrow> pyval" where
  "sample_token_no_logo a =
     PDict [(''address'', PStr a),
            (''symbol'', PStr ''TKN''),
            (''creation_timestamp'', PNum 1700000000),
            (''market_info'',
               PDict [(''fdv'', PNum 250000), (''price'', PNum (1 / 8)),
                      (''holders'', PNum 500), (''volume'', PNum 90000)]),
            (''pair_summary_info'', PDict [(''liquidity'', PNum 60000)])]"

definition sample_record :: "string \<Rightarrow> pydict" where
  "sample_record a =
     [(''address'', PStr a),
      (''symbol'', PStr ''TKN''),
      (''fdv'', PNum 250000),
      (''price'', PNum (1 / 8)),
      (''holders'', PNum 500),
      (''liquidity'', PNum 60000),
      (''volume'', PNum 90000),
      (''created_ago'', PStr ''12:00:00''),
      (''logo'', PStr ''https://example.org/logo.png'')]"

definition sample_record_no_logo :: "string \<Rightarrow> pydict" where
  "sample_record_no_logo a =
     [(''address'', PStr a),
      (''symbol'', PStr ''TKN''),
      (''fdv'', PNum 250000),
      (''price'', PNum (1 / 8)),
      (''holders'', PNum 500),
      (''liquidity'', PNum 60000),
      (''volume'', PNum 90000),
      (''created_ago'', PStr ''12:00:00'')]"

definition sample_hms :: "pyval \<Rightarrow> exn + string" where
  "sample_hms ts = (case ts of PNum n \<Rightarrow> Inr ''12:00:00'' | _ \<Rightarrow> Inl TypeError)"

definition reply :: "pyval \<Rightarrow> http_result" where
  "reply token = Response 200 (Inr (PDict [(''data'', PList [token])]))"

definition sample_order :: "pyval set \<Rightarrow> pyval list" where
  "sample_order = order_of [PStr ''abc123pump'', PStr ''xyz789moon'', PStr ''plain'']"

definition sample_env :: "http_result \<Rightarrow> exn + channel \<Rightarrow> exn option \<Rightarrow> env" where
  "sample_env r ch s =
     \<lparr>http_get = (\<lambda>url ps. if url = API_URL \<and> ps = PARAMS then r else Http_raises ClientError),
      local_hms = sample_hms,
      fetch_channel = ch,
      channel_send = s,
      set_order = sample_order\<rparr>"

definition sample_world :: "string \<Rightarrow> env" where
  "sample_world a = sample_env (reply (sample_token a)) (Inr TextChannel) None"

definition sample_monitor :: "pyval set \<Rightarrow> monitor" where
  "sample_monitor seen = \<lparr>seen_addresses = seen, subscribed_users = {}, files = Map.empty\<rparr>"

section \<open>Facts about the model\<close>

lemmas sample_defs = and_then_def py_set_def py_in_def endswith_def startswith_def
  open_read_def load_persistence_def save_persistence_def order_of_def
  token_fields_def parse_token_data_def fetch_try_def fetch_token_data_def
  get_logo_def send_try_def send_alert_def mark_seen_def filter_and_alert_def
  loop_try_def tick_def save_loaded_def subscribe_def unsubscribe_def
  API_URL_def CHECK_INTERVAL_def REQUIRED_SUFFIX_def BANNED_SUFFIX_def SEEN_FILE_def
  USERS_FILE_def sample_token_def sample_token_no_logo_def sample_record_def
  sample_record_no_logo_def sample_hms_def reply_def sample_order_def sample_env_def
  sample_world_def sample_monitor_def FLOAT_OVERFLOW_def

subsection \<open>Sequencing\<close>

lemma and_then_Inl [simp]: "and_then (Inl e) f = Inl e"
  by (simp add: and_then_def)

lemma and_then_Inr [simp]: "and_then (Inr x) f = f x"
  by (simp add: and_then_def)

subsection \<open>Suffixes\<close>

lemma moon_excludes_pump: "endswith a BANNED_SUFFIX \<Longrightarrow> \<not> endswith a REQUIRED_SUFFIX"
  by (simp add: endswith_def BANNED_SUFFIX_def REQUIRED_SUFFIX_def)

subsection \<open>Marking an address\<close>

lemma seen_mark_seen [simp]:
  "seen_addresses (mark_seen env a m) = insert a (seen_addresses m)"
  by (simp add: mark_seen_def)

lemma users_mark_seen [simp]:
  "subscribed_users (mark_seen env a m) = subscribed_users m"
  by (simp add: mark_seen_def)

lemma files_mark_seen:
  "files (mark_seen env a m) =
     (files m)(SEEN_FILE \<mapsto> Doc (PList (set_order env (insert a (seen_addresses m)))))"
  by (simp add: mark_seen_def save_persistence_def)

subsection \<open>The suffix tests and the alert\<close>

lemma faa_not_string:
  "\<forall>s. address \<noteq> PStr s \<Longrightarrow>
     filter_and_alert env td address m = (m, [], Raised AttributeError)"
  by (cases address) (auto simp add: filter_and_alert_def)

lemma faa_non_pump:
  "\<not> endswith a REQUIRED_SUFFIX \<Longrightarrow>
     filter_and_alert env td (PStr a) m =
       (mark_seen env (PStr a) m, [Log_non_pump (PStr a)], Continue)"
  by (simp add: filter_and_alert_def)

lemma faa_pump:
  "endswith a REQUIRED_SUFFIX \<Longrightarrow>
     filter_and_alert env td (PStr a) m =
       (case send_alert env td of
          Inl e \<Rightarrow> (m, [Alert td], Raised e)
        | Inr True \<Rightarrow>
            (case getitem (PDict td) ''symbol'' of
               Inl e \<Rightarrow> (mark_seen env (PStr a) m, [Alert td], Raised e)
             | Inr symbol \<Rightarrow>
                 (mark_seen env (PStr a) m, [Alert td, Log_alert_sent symbol], Reached_sleep))
        | Inr False \<Rightarrow> (m, [Alert td], Reached_sleep))"
proof -
  assume pump: "endswith a REQUIRED_SUFFIX"
  then have "\<not> endswith a BANNED_SUFFIX"
    using moon_excludes_pump by blast
  with pump show ?thesis
    by (simp add: filter_and_alert_def)
qed

lemma faa_cases:
  obtains (not_string) "filter_and_alert env td address m = (m, [], Raised AttributeError)"
  | (non_pump) "filter_and_alert env td address m =
       (mark_seen env address m, [Log_non_pump address], Continue)"
  | (raised) e where "filter_and_alert env td address m = (m, [Alert td], Raised e)"
  | (sent_raised) e where
      "filter_and_alert env td address m = (mark_seen env address m, [Alert td], Raised e)"
  | (sent) symbol where "filter_and_alert env td address m =
       (mark_seen env address m, [Alert td, Log_alert_sent symbol], Reached_sleep)"
  | (failed) "filter_and_alert env td address m = (m, [Alert td], Reached_sleep)"
proof (cases "\<exists>s. address = PStr s")
  case False
  then show ?thesis using not_string faa_not_string by blast
next
  case True
  then obtain a where a: "address = PStr a" by blast
  show ?thesis
  proof (cases "endswith a REQUIRED_SUFFIX")
    case False
    then show ?thesis using non_pump a faa_non_pump by blast
  next
    case True
    note eq = faa_pump [OF True, of env td m]
    show ?thesis
    proof (cases "send_alert env td")
      case (Inl e)
      with eq a show ?thesis using raised by simp
    next
      case (Inr ok)
      show ?thesis
      proof (cases ok)
        case False
        with Inr eq a show ?thesis using failed by simp
      next
        case delivered: True
        show ?thesis
        proof (cases "getitem (PDict td) ''symbol''")
          case (Inl e)
          with delivered Inr eq a show ?thesis using sent_raised by simp
        next
          case (Inr symbol)
          with delivered \<open>send_alert env td = Inr ok\<close> eq a show ?thesis
            using sent by simp
        qed
      qed
    qed
  qed
qed

lemma faa_seen_mono:
  "a \<in> seen_addresses m \<Longrightarrow> a \<in> seen_addresses (fst (filter_and_alert env td address m))"
  by (cases rule: faa_cases [of env td address m]) simp_all

lemma faa_alerted:
  "map_of td ''address'' = Some address \<Longrightarrow>
     set (alerted (fst (snd (filter_and_alert env td address m)))) \<subseteq> {address}"
  by (cases rule: faa_cases [of env td address m]) simp_all

lemma faa_no_moon: "Log_moon v \<notin> set (fst (snd (filter_and_alert env td address m)))"
  by (cases rule: faa_cases [of env td address m]) simp_all

subsection \<open>One iteration\<close>

lemma loop_try_cases:
  obtains (idle) "loop_try env m = (m, [], Reached_sleep)"
  | (raised) e where "loop_try env m = (m, [], Raised e)"
  | (skipped) td address where "fetch_token_data env = Some td"
      "map_of td ''address'' = Some address" "address \<in> seen_addresses m"
      "loop_try env m = (m, [Log_already_processed address], Continue)"
  | (fresh) td address where "fetch_token_data env = Some td"
      "map_of td ''address'' = Some address" "address \<notin> seen_addresses m"
      "loop_try env m = filter_and_alert env td address m"
proof (cases "fetch_token_data env")
  case None
  then show ?thesis using idle by (simp add: loop_try_def)
next
  case (Some td)
  show ?thesis
  proof (cases "map_of td ''address''")
    case None
    with Some have "loop_try env m = (m, [], Reached_sleep) \<or>
        loop_try env m = (m, [], Raised KeyError)"
      by (simp add: loop_try_def)
    then show ?thesis using idle raised by blast
  next
    case (Some address)
    then have ne: "td \<noteq> []" by auto
    show ?thesis
    proof (cases "hashable address")
      case False
      with Some ne \<open>fetch_token_data env = Some td\<close>
      have "loop_try env m = (m, [], Raised TypeError)"
        by (simp add: loop_try_def py_in_def)
      then show ?thesis using raised by blast
    next
      case True
      show ?thesis
      proof (cases "address \<in> seen_addresses m")
        case True
        with Some ne \<open>hashable address\<close> \<open>fetch_token_data env = Some td\<close>
        have "loop_try env m = (m, [Log_already_processed address], Continue)"
          by (simp add: loop_try_def py_in_def)
        with True Some \<open>fetch_token_data env = Some td\<close> show ?thesis
          using skipped by blast
      next
        case False
        with Some ne \<open>hashable address\<close> \<open>fetch_token_data env = Some td\<close>
        have "loop_try env m = filter_and_alert env td address m"
          by (simp add: loop_try_def py_in_def)
        with False Some \<open>fetch_token_data env = Some td\<close> show ?thesis
          using fresh by blast
      qed
    qed
  qed
qed

lemma fst_tick: "fst (tick env m) = fst (loop_try env m)"
  by (simp add: tick_def split: prod.splits ending.splits)

lemma alerted_append: "alerted (xs @ ys) = alerted xs @ alerted ys"
  by (induction xs rule: alerted.induct) (auto split: option.splits)

lemma sleeps_append: "sleeps (xs @ ys) = sleeps xs @ sleeps ys"
  by (induction xs rule: sleeps.induct) auto

lemma alerted_tick: "alerted (snd (tick env m)) = alerted (fst (snd (loop_try env m)))"
  by (simp add: tick_def alerted_append split: prod.splits ending.splits)

lemma tick_seen_mono:
  "a \<in> seen_addresses m \<Longrightarrow> a \<in> seen_addresses (fst (tick env m))"
  unfolding fst_tick
  by (cases rule: loop_try_cases [of env m]) (simp_all add: faa_seen_mono)

lemma tick_not_realerted:
  assumes "a \<in> seen_addresses m"
  shows "a \<notin> set (alerted (snd (tick env m)))"
proof (cases rule: loop_try_cases [of env m])
  case (fresh td address)
  with assms have "a \<noteq> address" by blast
  with fresh faa_alerted [of td address env m] show ?thesis
    by (auto simp add: alerted_tick)
qed (simp_all add: alerted_tick)

lemma tick_no_moon: "Log_moon v \<notin> set (snd (tick env m))"
proof -
  have "Log_moon v \<notin> set (fst (snd (loop_try env m)))"
    by (cases rule: loop_try_cases [of env m]) (simp_all add: faa_no_moon)
  then show ?thesis
    by (auto simp add: tick_def split: prod.splits ending.splits)
qed

subsection \<open>Runs\<close>

lemma run_Tick:
  "run (Tick env # steps) m =
     (fst (run steps (fst (tick env m))), snd (tick env m) @ snd (run steps (fst (tick env m))))"
  by (simp split: prod.splits)

lemma seen_subscribe [simp]: "seen_addresses (subscribe env uid m) = seen_addresses m"
  by (simp add: subscribe_def)

lemma seen_unsubscribe [simp]: "seen_addresses (unsubscribe env uid m) = seen_addresses m"
  by (simp add: unsubscribe_def)

lemma run_no_moon: "Log_moon v \<notin> set (snd (run steps m))"
proof (induction steps arbitrary: m)
  case Nil
  show ?case by simp
next
  case (Cons s steps)
  show ?case
    by (cases s) (simp_all add: run_Tick tick_no_moon Cons.IH del: run.simps(2))
qed

section \<open>Properties of the loop\<close>

text \<open>
  Claim C1. Once an address is in \<^verbatim>\<open>seen_addresses\<close> it stays there, and no later
  iteration of the monitoring loop calls \<^verbatim>\<open>send_alert\<close> with a record of that address:
  for every run of iterations and commands from a state that holds the address, the
  final state holds it and it is not among the addresses handed to the notifier.
\<close>

theorem seen_is_kept_and_never_alerted_again:
  "a \<in> seen_addresses m \<Longrightarrow>
     a \<in> seen_addresses (fst (run steps m)) \<and> a \<notin> set (alerted (snd (run steps m)))"
proof (induction steps arbitrary: m)
  case Nil
  then show ?case by simp
next
  case (Cons s steps)
  show ?case
  proof (cases s)
    case (Tick env)
    from Cons.prems have "a \<in> seen_addresses (fst (tick env m))"
      by (rule tick_seen_mono)
    from Cons.IH [OF this] Cons.prems show ?thesis
      by (simp add: Tick run_Tick alerted_append tick_not_realerted del: run.simps(2))
  next
    case (Subscribe env uid)
    with Cons show ?thesis by simp
  next
    case (Unsubscribe env uid)
    with Cons show ?thesis by simp
  qed
qed

theorem seen_is_kept_and_never_alerted_again_witness:
  "PStr ''abc123pump'' \<in> seen_addresses (sample_monitor {PStr ''abc123pump''}) \<and>
   PStr ''abc123pump'' \<in> seen_addresses (fst (run
      [Tick (sample_env (reply (sample_token ''abc123pump'')) (Inr TextChannel) None),
       Unsubscribe (sample_env (reply (sample_token ''plain'')) (Inr TextChannel) None) 7,
       Tick (sample_env (reply (sample_token ''plain'')) (Inr TextChannel) None),
       Tick (sample_env (reply (sample_token ''abc123pump'')) (Inr TextChannel) None)]
      (sample_monitor {PStr ''abc123pump''}))) \<and>
   PStr ''abc123pump'' \<notin> set (alerted (snd (run
      [Tick (sample_env (reply (sample_token ''abc123pump'')) (Inr TextChannel) None),
       Unsubscribe (sample_env (reply (sample_token ''plain'')) (Inr TextChannel) None) 7,
       Tick (sample_env (reply (sample_token ''plain'')) (Inr TextChannel) None),
       Tick (sample_env (reply (sample_token ''abc123pump'')) (Inr TextChannel) None)]
      (sample_monitor {PStr ''abc123pump''}))))"
  using seen_is_kept_and_never_alerted_again
    [of "PStr ''abc123pump''" "sample_monitor {PStr ''abc123pump''}"
      "[Tick (sample_env (reply (sample_token ''abc123pump'')) (Inr TextChannel) None),
       Unsubscribe (sample_env (reply (sample_token ''plain'')) (Inr TextChannel) None) 7,
       Tick (sample_env (reply (sample_token ''plain'')) (Inr TextChannel) None),
       Tick (sample_env (reply (sample_token ''abc123pump'')) (Inr TextChannel) None)]"]
  by (simp add: sample_monitor_def del: run.simps)

subsection \<open>One iteration, by case\<close>

lemma tick_idle: "fetch_token_data env = None \<Longrightarrow> tick env m = (m, [Sleep CHECK_INTERVAL])"
  by (simp add: tick_def loop_try_def)

lemma loop_try_fresh:
  "fetch_token_data env = Some td \<Longrightarrow> map_of td ''address'' = Some (PStr a) \<Longrightarrow>
   PStr a \<notin> seen_addresses m \<Longrightarrow>
     loop_try env m = filter_and_alert env td (PStr a) m"
  by (auto simp add: loop_try_def py_in_def)

lemma loop_try_seen:
  "fetch_token_data env = Some td \<Longrightarrow> map_of td ''address'' = Some v \<Longrightarrow>
   v \<in> seen_addresses m \<Longrightarrow>
     fst (loop_try env m) = m \<and> alerted (fst (snd (loop_try env m))) = []"
  by (cases "hashable v") (auto simp add: loop_try_def py_in_def)

lemma tick_non_pump:
  "fetch_token_data env = Some td \<Longrightarrow> map_of td ''address'' = Some (PStr a) \<Longrightarrow>
   PStr a \<notin> seen_addresses m \<Longrightarrow> \<not> endswith a REQUIRED_SUFFIX \<Longrightarrow>
     tick env m = (mark_seen env (PStr a) m, [Log_non_pump (PStr a)])"
  by (simp add: tick_def loop_try_fresh faa_non_pump)

lemma alert_in_tick:
  "Alert td \<in> set (snd (tick env m)) \<longleftrightarrow> Alert td \<in> set (fst (snd (loop_try env m)))"
  by (auto simp add: tick_def split: prod.splits ending.splits)

lemma faa_alert_only:
  assumes "Alert td' \<in> set (fst (snd (filter_and_alert env td address m)))"
  shows "td' = td \<and>
    (\<exists>a. address = PStr a \<and> endswith a REQUIRED_SUFFIX \<and> \<not> endswith a BANNED_SUFFIX)"
proof -
  have same: "td' = td"
    using assms by (cases rule: faa_cases [of env td address m]) simp_all
  have "\<exists>a. address = PStr a \<and> endswith a REQUIRED_SUFFIX \<and> \<not> endswith a BANNED_SUFFIX"
  proof (cases "\<exists>s. address = PStr s")
    case False
    then have "filter_and_alert env td address m = (m, [], Raised AttributeError)"
      using faa_not_string by blast
    with assms show ?thesis by simp
  next
    case True
    then obtain a where a: "address = PStr a" by blast
    show ?thesis
    proof (cases "endswith a REQUIRED_SUFFIX")
      case False
      with assms a show ?thesis by (simp add: faa_non_pump)
    next
      case True
      with a moon_excludes_pump [of a] show ?thesis by blast
    qed
  qed
  with same show ?thesis by blast
qed

lemma tick_alert_only:
  assumes "Alert td' \<in> set (snd (tick env m))"
  shows "fetch_token_data env = Some td' \<and>
    (\<exists>a. map_of td' ''address'' = Some (PStr a) \<and> PStr a \<notin> seen_addresses m \<and>
         endswith a REQUIRED_SUFFIX \<and> \<not> endswith a BANNED_SUFFIX)"
proof -
  from assms have in_try: "Alert td' \<in> set (fst (snd (loop_try env m)))"
    by (simp add: alert_in_tick)
  show ?thesis
  proof (cases rule: loop_try_cases [of env m])
    case (fresh td address)
    with in_try faa_alert_only [of td' env td address m] show ?thesis by auto
  qed (use in_try in simp_all)
qed

lemma tick_pump_alerted:
  "fetch_token_data env = Some td \<Longrightarrow> map_of td ''address'' = Some (PStr a) \<Longrightarrow>
   PStr a \<notin> seen_addresses m \<Longrightarrow> endswith a REQUIRED_SUFFIX \<Longrightarrow>
     alerted (snd (tick env m)) = [PStr a]"
  by (simp add: alerted_tick loop_try_fresh faa_pump split: sum.splits bool.splits)

subsection \<open>Parsing\<close>

lemma and_then_eq_Inr: "and_then r f = Inr y \<longleftrightarrow> (\<exists>x. r = Inr x \<and> f x = Inr y)"
  by (cases r) simp_all

lemma token_fields_logo:
  "token_fields env token = Inr td \<Longrightarrow> \<exists>logo. getitem token ''logo'' = Inr logo"
  by (auto simp add: token_fields_def and_then_eq_Inr)

lemma parse_needs_logo:
  "map_of kvs ''logo'' = None \<Longrightarrow> parse_token_data env (PDict kvs) \<noteq> Inr (Some td)"
  using token_fields_logo [of env "PDict kvs"]
  by (auto simp add: parse_token_data_def split: sum.splits if_splits)

subsection \<open>Loading\<close>

lemma hashable_strings: "list_all hashable (map PStr xs)"
  by (simp add: list_all_iff)

lemma load_missing: "fs f = None \<Longrightarrow> load_persistence fs f = Inr {}"
  by (simp add: load_persistence_def open_read_def)

lemma load_not_json: "fs f = Some NotJson \<Longrightarrow> load_persistence fs f = Inr {}"
  by (simp add: load_persistence_def open_read_def)

lemma load_doc: "fs f = Some (Doc v) \<Longrightarrow> load_persistence fs f = py_set v"
  by (cases v)
    (simp_all add: load_persistence_def open_read_def py_set_def split: sum.splits)

lemma load_strings:
  "fs f = Some (Doc (PList (map PStr xs))) \<Longrightarrow> load_persistence fs f = Inr (PStr ` set xs)"
  by (simp add: load_doc py_set_def hashable_strings)

section \<open>Properties of one iteration\<close>

text \<open>
  Claim C2. When a token that was never seen and whose address ends in \<^verbatim>\<open>pump\<close>
  reaches the alert and \<^verbatim>\<open>send_alert\<close> returns \<^verbatim>\<open>False\<close>, the iteration leaves the
  whole state as it was: the address is not added to \<^verbatim>\<open>seen_addresses\<close> and no file is
  written, so the same token is alerted again by a later iteration that fetches it.
\<close>

theorem failed_alert_leaves_address_unseen:
  assumes "fetch_token_data env = Some td"
    and "map_of td ''address'' = Some (PStr a)"
    and "PStr a \<notin> seen_addresses m"
    and "endswith a REQUIRED_SUFFIX"
    and "send_alert env td = Inr False"
  shows "tick env m = (m, [Alert td, Sleep CHECK_INTERVAL]) \<and>
    PStr a \<notin> seen_addresses (fst (tick env m)) \<and>
    files (fst (tick env m)) = files m"
  using assms by (simp add: tick_def loop_try_fresh faa_pump)

theorem failed_alert_leaves_address_unseen_witness:
  "fetch_token_data (sample_env (reply (sample_token ''abc123pump'')) (Inr OtherChannel) None)
     = Some (sample_record ''abc123pump'') \<and>
   send_alert (sample_env (reply (sample_token ''abc123pump'')) (Inr OtherChannel) None)
     (sample_record ''abc123pump'') = Inr False \<and>
   tick (sample_env (reply (sample_token ''abc123pump'')) (Inr OtherChannel) None)
     (sample_monitor {}) =
     (sample_monitor {}, [Alert (sample_record ''abc123pump''), Sleep 15])"
  using failed_alert_leaves_address_unseen
    [of "sample_env (reply (sample_token ''abc123pump'')) (Inr OtherChannel) None"
        "sample_record ''abc123pump''" "''abc123pump''" "sample_monitor {}"]
  by (simp add: sample_defs)

text \<open>
  Claim C3 says that every iteration, a skip included, sleeps 15 seconds before the
  next fetch. The three skips leave the body through \<^verbatim>\<open>continue\<close>, which jumps over
  \<^verbatim>\<open>await asyncio.sleep(Config.CHECK_INTERVAL)\<close>: the iteration that fetches an address
  already seen, and the one that fetches an address without the suffix \<^verbatim>\<open>pump\<close>, do
  not sleep at all, while the iteration that alerts sleeps 15 seconds.
\<close>

theorem skipped_tick_does_not_sleep:
  "tick (sample_world ''abc123pump'') (sample_monitor {PStr ''abc123pump''}) =
     (sample_monitor {PStr ''abc123pump''}, [Log_already_processed (PStr ''abc123pump'')]) \<and>
   sleeps (snd (tick (sample_world ''abc123pump'') (sample_monitor {PStr ''abc123pump''}))) = [] \<and>
   sleeps (snd (tick (sample_world ''plain'') (sample_monitor {}))) = [] \<and>
   sleeps (snd (tick (sample_world ''abc123pump'') (sample_monitor {}))) = [15]"
  by (simp add: sample_defs)

text \<open>
  Claim C4. The checks of one iteration, in their order: (1) a fetch that gives
  \<^verbatim>\<open>None\<close> changes nothing and alerts nothing; (2) an address already seen changes
  nothing (no second insertion, no file written) and alerts nothing, whatever its
  suffix; (3) an unseen address that does not end in \<^verbatim>\<open>pump\<close> is inserted into
  \<^verbatim>\<open>seen_addresses\<close> and the enlarged set is written to \<^verbatim>\<open>seen_addresses.json\<close>, from
  where a load gives it back, with no alert; (4) so is an unseen address that ends in
  \<^verbatim>\<open>moon\<close>; (5) an unseen address that ends in \<^verbatim>\<open>pump\<close> is handed to the notifier, and
  nothing is handed to the notifier but the fetched record of an unseen address that
  ends in \<^verbatim>\<open>pump\<close> and not in \<^verbatim>\<open>moon\<close>.
\<close>

theorem per_tick_checks_in_order:
  "(fetch_token_data env = None \<longrightarrow>
      fst (tick env m) = m \<and> alerted (snd (tick env m)) = []) \<and>
   (fetch_token_data env = Some td \<and> map_of td ''address'' = Some v \<and>
    v \<in> seen_addresses m \<longrightarrow>
      fst (tick env m) = m \<and> alerted (snd (tick env m)) = []) \<and>
   (fetch_token_data env = Some td \<and> map_of td ''address'' = Some (PStr a) \<and>
    PStr a \<notin> seen_addresses m \<and> \<not> endswith a REQUIRED_SUFFIX \<longrightarrow>
      seen_addresses (fst (tick env m)) = insert (PStr a) (seen_addresses m) \<and>
      files (fst (tick env m)) =
        (files m)(SEEN_FILE \<mapsto>
          Doc (PList (set_order env (insert (PStr a) (seen_addresses m))))) \<and>
      subscribed_users (fst (tick env m)) = subscribed_users m \<and>
      alerted (snd (tick env m)) = []) \<and>
   (fetch_token_data env = Some td \<and> map_of td ''address'' = Some (PStr a) \<and>
    PStr a \<notin> seen_addresses m \<and> \<not> endswith a REQUIRED_SUFFIX \<and>
    set (set_order env (insert (PStr a) (seen_addresses m)))
      = insert (PStr a) (seen_addresses m) \<and>
    list_all hashable (set_order env (insert (PStr a) (seen_addresses m))) \<longrightarrow>
      load_persistence (files (fst (tick env m))) SEEN_FILE
        = Inr (insert (PStr a) (seen_addresses m))) \<and>
   (fetch_token_data env = Some td \<and> map_of td ''address'' = Some (PStr a) \<and>
    PStr a \<notin> seen_addresses m \<and> endswith a BANNED_SUFFIX \<longrightarrow>
      seen_addresses (fst (tick env m)) = insert (PStr a) (seen_addresses m) \<and>
      files (fst (tick env m)) =
        (files m)(SEEN_FILE \<mapsto>
          Doc (PList (set_order env (insert (PStr a) (seen_addresses m))))) \<and>
      subscribed_users (fst (tick env m)) = subscribed_users m \<and>
      alerted (snd (tick env m)) = []) \<and>
   (fetch_token_data env = Some td \<and> map_of td ''address'' = Some (PStr a) \<and>
    PStr a \<notin> seen_addresses m \<and> endswith a REQUIRED_SUFFIX \<longrightarrow>
      alerted (snd (tick env m)) = [PStr a]) \<and>
   (Alert td' \<in> set (snd (tick env m)) \<longrightarrow>
      fetch_token_data env = Some td' \<and>
      (\<exists>b. map_of td' ''address'' = Some (PStr b) \<and> PStr b \<notin> seen_addresses m \<and>
           endswith b REQUIRED_SUFFIX \<and> \<not> endswith b BANNED_SUFFIX))"
proof (intro conjI impI)
  assume "fetch_token_data env = None"
  then show "fst (tick env m) = m" and "alerted (snd (tick env m)) = []"
    by (simp_all add: tick_idle)
next
  assume "fetch_token_data env = Some td \<and> map_of td ''address'' = Some v \<and>
    v \<in> seen_addresses m"
  then show "fst (tick env m) = m" and "alerted (snd (tick env m)) = []"
    using loop_try_seen [of env td v m] by (simp_all add: fst_tick alerted_tick)
next
  assume "fetch_token_data env = Some td \<and> map_of td ''address'' = Some (PStr a) \<and>
    PStr a \<notin> seen_addresses m \<and> \<not> endswith a REQUIRED_SUFFIX"
  then have t: "tick env m = (mark_seen env (PStr a) m, [Log_non_pump (PStr a)])"
    by (simp add: tick_non_pump)
  show "seen_addresses (fst (tick env m)) = insert (PStr a) (seen_addresses m)"
    and "files (fst (tick env m)) =
        (files m)(SEEN_FILE \<mapsto>
          Doc (PList (set_order env (insert (PStr a) (seen_addresses m)))))"
    and "subscribed_users (fst (tick env m)) = subscribed_users m"
    and "alerted (snd (tick env m)) = []"
    by (simp_all add: t files_mark_seen users_mark_seen)
next
  assume h: "fetch_token_data env = Some td \<and> map_of td ''address'' = Some (PStr a) \<and>
    PStr a \<notin> seen_addresses m \<and> \<not> endswith a REQUIRED_SUFFIX \<and>
    set (set_order env (insert (PStr a) (seen_addresses m)))
      = insert (PStr a) (seen_addresses m) \<and>
    list_all hashable (set_order env (insert (PStr a) (seen_addresses m)))"
  then have t: "tick env m = (mark_seen env (PStr a) m, [Log_non_pump (PStr a)])"
    by (simp add: tick_non_pump)
  have "files (fst (tick env m)) SEEN_FILE =
      Some (Doc (PList (set_order env (insert (PStr a) (seen_addresses m)))))"
    by (simp add: t files_mark_seen)
  with h show "load_persistence (files (fst (tick env m))) SEEN_FILE
        = Inr (insert (PStr a) (seen_addresses m))"
    by (simp add: load_doc py_set_def)
next
  assume h: "fetch_token_data env = Some td \<and> map_of td ''address'' = Some (PStr a) \<and>
    PStr a \<notin> seen_addresses m \<and> endswith a BANNED_SUFFIX"
  then have "\<not> endswith a REQUIRED_SUFFIX"
    using moon_excludes_pump by blast
  with h have t: "tick env m = (mark_seen env (PStr a) m, [Log_non_pump (PStr a)])"
    by (simp add: tick_non_pump)
  show "seen_addresses (fst (tick env m)) = insert (PStr a) (seen_addresses m)"
    and "files (fst (tick env m)) =
        (files m)(SEEN_FILE \<mapsto>
          Doc (PList (set_order env (insert (PStr a) (seen_addresses m)))))"
    and "subscribed_users (fst (tick env m)) = subscribed_users m"
    and "alerted (snd (tick env m)) = []"
    by (simp_all add: t files_mark_seen users_mark_seen)
next
  assume "fetch_token_data env = Some td \<and> map_of td ''address'' = Some (PStr a) \<and>
    PStr a \<notin> seen_addresses m \<and> endswith a REQUIRED_SUFFIX"
  then show "alerted (snd (tick env m)) = [PStr a]"
    by (simp add: tick_pump_alerted)
next
  assume "Alert td' \<in> set (snd (tick env m))"
  then show "fetch_token_data env = Some td'"
    and "\<exists>b. map_of td' ''address'' = Some (PStr b) \<and> PStr b \<notin> seen_addresses m \<and>
           endswith b REQUIRED_SUFFIX \<and> \<not> endswith b BANNED_SUFFIX"
    using tick_alert_only [of td' env m] by simp_all
qed

theorem per_tick_checks_in_order_witness:
  "fetch_token_data (sample_env (Http_raises TimeoutError) (Inr TextChannel) None) = None \<and>
   fst (tick (sample_env (Http_raises TimeoutError) (Inr TextChannel) None) (sample_monitor {}))
     = sample_monitor {} \<and>
   fst (tick (sample_world ''plain'') (sample_monitor {PStr ''plain''}))
     = sample_monitor {PStr ''plain''} \<and>
   fst (tick (sample_world ''plain'') (sample_monitor {})) =
     \<lparr>seen_addresses = {PStr ''plain''}, subscribed_users = {},
      files = Map.empty(''seen_addresses.json'' \<mapsto> Doc (PList [PStr ''plain'']))\<rparr> \<and>
   load_persistence (files (fst (tick (sample_world ''plain'') (sample_monitor {}))))
     ''seen_addresses.json'' = Inr {PStr ''plain''} \<and>
   alerted (snd (tick (sample_world ''plain'') (sample_monitor {}))) = [] \<and>
   fst (tick (sample_world ''xyz789moon'') (sample_monitor {})) =
     \<lparr>seen_addresses = {PStr ''xyz789moon''}, subscribed_users = {},
      files = Map.empty(''seen_addresses.json'' \<mapsto> Doc (PList [PStr ''xyz789moon'']))\<rparr> \<and>
   alerted (snd (tick (sample_world ''xyz789moon'') (sample_monitor {}))) = [] \<and>
   alerted (snd (tick (sample_world ''abc123pump'') (sample_monitor {}))) = [PStr ''abc123pump''] \<and>
   Alert (sample_record ''abc123pump'')
     \<in> set (snd (tick (sample_world ''abc123pump'') (sample_monitor {}))) \<and>
   fetch_token_data (sample_world ''abc123pump'') = Some (sample_record ''abc123pump'')"
  using
    per_tick_checks_in_order
      [of "sample_env (Http_raises TimeoutError) (Inr TextChannel) None" "sample_monitor {}"]
    per_tick_checks_in_order
      [of "sample_world ''plain''" "sample_monitor {PStr ''plain''}" "sample_record ''plain''"
          "PStr ''plain''"]
    per_tick_checks_in_order
      [of "sample_world ''plain''" "sample_monitor {}" "sample_record ''plain''"
          "PStr ''plain''" "''plain''"]
    per_tick_checks_in_order
      [of "sample_world ''xyz789moon''" "sample_monitor {}" "sample_record ''xyz789moon''"
          "PStr ''xyz789moon''" "''xyz789moon''"]
    per_tick_checks_in_order
      [of "sample_world ''abc123pump''" "sample_monitor {}" "sample_record ''abc123pump''"
          "PStr ''abc123pump''" "''abc123pump''" "sample_record ''abc123pump''"]
  by (simp add: sample_defs)

section \<open>Properties of the store and the fetcher\<close>

text \<open>
  Claim C5 says that \<^verbatim>\<open>load_persistence\<close> returns the empty set, and never raises,
  whenever the file is missing or its content is malformed in any way, JSON that is no
  array of strings included. The handler of \<^verbatim>\<open>load_persistence\<close> gives the empty set
  for a missing file and for text that is no JSON, and catches nothing else: a file
  holding the number 42, \<^verbatim>\<open>null\<close> or an array of an array makes \<^verbatim>\<open>set()\<close> raise
  \<^verbatim>\<open>TypeError\<close>, bytes that are no text raise \<^verbatim>\<open>UnicodeDecodeError\<close>, and both leave the
  function, so that the start of \<^verbatim>\<open>TokenMonitor\<close> fails; a file holding an object
  loads as the set of its keys.
\<close>

theorem load_number_raises:
  "load_persistence Map.empty SEEN_FILE = Inr {} \<and>
   load_persistence (Map.empty(SEEN_FILE \<mapsto> NotJson)) SEEN_FILE = Inr {} \<and>
   load_persistence (Map.empty(SEEN_FILE \<mapsto> Doc (PNum 42))) SEEN_FILE = Inl TypeError \<and>
   load_persistence (Map.empty(SEEN_FILE \<mapsto> Doc PNone)) SEEN_FILE = Inl TypeError \<and>
   load_persistence (Map.empty(SEEN_FILE \<mapsto> Doc (PList [PList []]))) SEEN_FILE
     = Inl TypeError \<and>
   load_persistence (Map.empty(SEEN_FILE \<mapsto> NotText)) SEEN_FILE = Inl UnicodeDecodeError \<and>
   load_persistence (Map.empty(SEEN_FILE \<mapsto> Doc (PDict [(''a'', PNum 1)]))) SEEN_FILE
     = Inr {PStr ''a''} \<and>
   init (Map.empty(SEEN_FILE \<mapsto> Doc (PNum 42))) = Inl TypeError"
  by (simp add: init_def load_persistence_def open_read_def py_set_def)

text \<open>
  Claim C6 says that a record with every required field and no logo is still parsed.
  \<^verbatim>\<open>parse_token_data\<close> reads \<^verbatim>\<open>token["logo"]\<close> like the required fields, so such a
  record raises \<^verbatim>\<open>KeyError\<close> and is discarded: the parse and the fetch give \<^verbatim>\<open>None\<close>.
  The notifier reads the logo with \<^verbatim>\<open>token_data.get('logo', '')\<close> and sends the alert
  for a dictionary without it.
\<close>

theorem record_without_logo_is_discarded:
  "parse_token_data (sample_world ''abc123pump'') (sample_token_no_logo ''abc123pump'')
     = Inr None \<and>
   fetch_token_data
     (sample_env (reply (sample_token_no_logo ''abc123pump'')) (Inr TextChannel) None) = None \<and>
   send_alert (sample_world ''abc123pump'') (sample_record_no_logo ''abc123pump'') = Inr True"
  by (simp add: sample_defs)

text \<open>
  Claim C7. Whatever exception the body of \<^verbatim>\<open>fetch_token_data\<close> raises (the request,
  the decoding of the reply, a subscript), the function returns \<^verbatim>\<open>None\<close>; it does so
  too for a status other than 200. An iteration whose fetch returns \<^verbatim>\<open>None\<close> leaves the
  state as it was, calls no notifier, and sleeps the interval.
\<close>

lemma fetch_raised: "fetch_try env = Inl e \<Longrightarrow> fetch_token_data env = None"
  by (simp add: fetch_token_data_def)

theorem fetch_failures_give_none:
  "(fetch_try env = Inl e \<longrightarrow> fetch_token_data env = None) \<and>
   (http_get env API_URL PARAMS = Http_raises e \<longrightarrow>
      fetch_try env = Inl e \<and> fetch_token_data env = None) \<and>
   (http_get env API_URL PARAMS = Response status body \<and> status \<noteq> 200 \<longrightarrow>
      fetch_token_data env = None) \<and>
   (http_get env API_URL PARAMS = Response status (Inl e) \<longrightarrow>
      fetch_token_data env = None) \<and>
   (fetch_token_data env = None \<longrightarrow> tick env m = (m, [Sleep CHECK_INTERVAL]))"
  by (auto simp add: fetch_raised tick_idle fetch_try_def fetch_token_data_def)

theorem fetch_failures_give_none_witness:
  "fetch_try (sample_env (Http_raises TimeoutError) (Inr TextChannel) None) = Inl TimeoutError \<and>
   fetch_token_data (sample_env (Http_raises TimeoutError) (Inr TextChannel) None) = None \<and>
   fetch_token_data (sample_env (Response 500 (Inr PNone)) (Inr TextChannel) None) = None \<and>
   fetch_token_data (sample_env (Response 200 (Inl JSONDecodeError)) (Inr TextChannel) None)
     = None \<and>
   tick (sample_env (Http_raises TimeoutError) (Inr TextChannel) None)
     (sample_monitor {PStr ''plain''}) = (sample_monitor {PStr ''plain''}, [Sleep 15])"
  using
    fetch_failures_give_none
      [of "sample_env (Http_raises TimeoutError) (Inr TextChannel) None" TimeoutError
          0 "Inr PNone" "sample_monitor {PStr ''plain''}"]
    fetch_failures_give_none
      [of "sample_env (Response 500 (Inr PNone)) (Inr TextChannel) None" TimeoutError
          500 "Inr PNone" "sample_monitor {PStr ''plain''}"]
    fetch_failures_give_none
      [of "sample_env (Response 200 (Inl JSONDecodeError)) (Inr TextChannel) None"
          JSONDecodeError 200 "Inr PNone" "sample_monitor {PStr ''plain''}"]
  by (simp add: sample_env_def CHECK_INTERVAL_def)

text \<open>
  Claim C8, amended. For a file that holds a JSON array of strings, saving the
  loaded set writes an array with the same elements as the original, each once, in
  whatever order the set is enumerated; a load of the written file gives the same set
  as a load of the original; the written array is a reordering of the original
  exactly when the original has no repeated element; and doing it again, with the
  enumeration of that second call, writes a reordering of what the first wrote.
\<close>

theorem save_loaded_round_trip:
  assumes "fs f = Some (Doc (PList (map PStr xs)))"
    and "set (ord (PStr ` set xs)) = PStr ` set xs"
    and "distinct (ord (PStr ` set xs))"
    and "set (ord' (PStr ` set xs)) = PStr ` set xs"
    and "distinct (ord' (PStr ` set xs))"
  shows "save_loaded ord fs f = Inr (fs(f \<mapsto> Doc (PList (ord (PStr ` set xs))))) \<and>
    set (ord (PStr ` set xs)) = set (map PStr xs) \<and>
    (mset (ord (PStr ` set xs)) = mset (map PStr xs)) = distinct xs \<and>
    load_persistence (fs(f \<mapsto> Doc (PList (ord (PStr ` set xs))))) f
      = load_persistence fs f \<and>
    save_loaded ord' (fs(f \<mapsto> Doc (PList (ord (PStr ` set xs))))) f
      = Inr (fs(f \<mapsto> Doc (PList (ord' (PStr ` set xs))))) \<and>
    mset (ord' (PStr ` set xs)) = mset (ord (PStr ` set xs))"
proof -
  let ?S = "PStr ` set xs"
  let ?fs' = "fs(f \<mapsto> Doc (PList (ord ?S)))"
  have first: "save_loaded ord fs f = Inr ?fs'"
    using assms(1) by (simp add: save_loaded_def load_strings save_persistence_def)
  have elems: "set (ord ?S) = set (map PStr xs)"
    using assms(2) by simp
  have d: "distinct (map PStr xs) = distinct xs"
    by (simp add: distinct_map inj_on_def)
  have perm: "(mset (ord ?S) = mset (map PStr xs)) = distinct xs"
  proof
    assume "mset (ord ?S) = mset (map PStr xs)"
    then have "distinct (ord ?S) = distinct (map PStr xs)"
      by (rule mset_eq_imp_distinct_iff)
    with assms(3) d show "distinct xs" by simp
  next
    assume "distinct xs"
    with d have "distinct (map PStr xs)" by simp
    from set_eq_iff_mset_eq_distinct [OF assms(3) this] elems
    show "mset (ord ?S) = mset (map PStr xs)" by blast
  qed
  have "list_all hashable (ord ?S)"
    using assms(2) by (auto simp add: list_all_iff)
  then have reload: "load_persistence ?fs' f = Inr ?S"
    using assms(2) by (simp add: load_doc py_set_def)
  then have same: "load_persistence ?fs' f = load_persistence fs f"
    using assms(1) by (simp add: load_strings)
  from reload have again: "save_loaded ord' ?fs' f = Inr (fs(f \<mapsto> Doc (PList (ord' ?S))))"
    by (simp add: save_loaded_def save_persistence_def)
  from set_eq_iff_mset_eq_distinct [OF assms(5) assms(3)] assms(2) assms(4)
  have reorder: "mset (ord' ?S) = mset (ord ?S)" by simp
  from first elems perm same again reorder show ?thesis by blast
qed

theorem save_loaded_round_trip_witness:
  "save_loaded (order_of [PStr ''b'', PStr ''a''])
     (Map.empty(SEEN_FILE \<mapsto> Doc (PList [PStr ''a'', PStr ''b'']))) SEEN_FILE
     = Inr (Map.empty(SEEN_FILE \<mapsto> Doc (PList [PStr ''b'', PStr ''a'']))) \<and>
   save_loaded (order_of [PStr ''a'', PStr ''b''])
     (Map.empty(SEEN_FILE \<mapsto> Doc (PList [PStr ''b'', PStr ''a'']))) SEEN_FILE
     = Inr (Map.empty(SEEN_FILE \<mapsto> Doc (PList [PStr ''a'', PStr ''b''])))"
  using save_loaded_round_trip
    [of "Map.empty(SEEN_FILE \<mapsto> Doc (PList [PStr ''a'', PStr ''b'']))" SEEN_FILE
        "[''a'', ''b'']" "order_of [PStr ''b'', PStr ''a'']" "order_of [PStr ''a'', PStr ''b'']"]
  by (simp add: order_of_def insert_commute)

text \<open>
  Claim C8 as stated fails for an array with a repeated element: the file
  \<^verbatim>\<open>["a", "a"]\<close> is rewritten as \<^verbatim>\<open>["a"]\<close>, which is no reordering of it.
\<close>

theorem save_loaded_drops_repetitions:
  "save_loaded (order_of [PStr ''a''])
     (Map.empty(SEEN_FILE \<mapsto> Doc (PList [PStr ''a'', PStr ''a'']))) SEEN_FILE
     = Inr (Map.empty(SEEN_FILE \<mapsto> Doc (PList [PStr ''a'']))) \<and>
   mset [PStr ''a''] \<noteq> mset [PStr ''a'', PStr ''a'']"
  by (simp add: save_loaded_def load_persistence_def open_read_def py_set_def
      save_persistence_def order_of_def)

text \<open>
  Claim C10. An address that ends in \<^verbatim>\<open>moon\<close> does not end in \<^verbatim>\<open>pump\<close>; the log line
  of the branch for banned addresses appears in no iteration and in no run; and an
  unseen address that ends in \<^verbatim>\<open>moon\<close> is marked seen by the branch for addresses
  without the required suffix.
\<close>

theorem moon_branch_is_unreachable:
  "(endswith a BANNED_SUFFIX \<longrightarrow> \<not> endswith a REQUIRED_SUFFIX) \<and>
   Log_moon v \<notin> set (snd (tick env m)) \<and>
   Log_moon v \<notin> set (snd (run steps m)) \<and>
   (fetch_token_data env = Some td \<and> map_of td ''address'' = Some (PStr a) \<and>
    PStr a \<notin> seen_addresses m \<and> endswith a BANNED_SUFFIX \<longrightarrow>
      tick env m = (mark_seen env (PStr a) m, [Log_non_pump (PStr a)]))"
  using moon_excludes_pump [of a]
  by (auto simp add: tick_no_moon run_no_moon tick_non_pump)

theorem moon_branch_is_unreachable_witness:
  "endswith ''xyz789moon'' BANNED_SUFFIX \<and> \<not> endswith ''xyz789moon'' REQUIRED_SUFFIX \<and>
   tick (sample_world ''xyz789moon'') (sample_monitor {}) =
     (mark_seen (sample_world ''xyz789moon'') (PStr ''xyz789moon'') (sample_monitor {}),
      [Log_non_pump (PStr ''xyz789moon'')]) \<and>
   PStr ''xyz789moon''
     \<in> seen_addresses (fst (tick (sample_world ''xyz789moon'') (sample_monitor {})))"
  using moon_branch_is_unreachable
    [of "''xyz789moon''" "PStr ''xyz789moon''" "sample_world ''xyz789moon''" "sample_monitor {}"
        "[]" "sample_record ''xyz789moon''"]
  by (simp add: sample_defs)

end
